theory Spec2Isabelle
  imports Main "HOL-Library.Sublist"
begin

section \<open>Package-level variables of image\_routes.go\<close>

text \<open>
  \<^verbatim>\<open>defaultRegistryUrl = "docker.io"\<close> and \<^verbatim>\<open>defaultUserName = "library"\<close>
  (lines 34-35). Go strings are byte sequences; a \<open>string\<close> here is a list of
  8-bit characters.
\<close>

definition defaultRegistryUrl :: string where
  "defaultRegistryUrl = ''docker.io''"

definition defaultUserName :: string where
  "defaultUserName = ''library''"

section \<open>The parts of Go's strings package and of slicing that the file uses\<close>

text \<open>
  \<^verbatim>\<open>strings.Count(s, "/")\<close> with a one-byte separator: the number of bytes of
  \<open>s\<close> equal to it.
\<close>

definition Count :: "string \<Rightarrow> char \<Rightarrow> nat" where
  "Count s sep = length (filter (\<lambda>x. x = sep) s)"

text \<open>
  \<^verbatim>\<open>strings.IndexRune(s, r)\<close> for an ASCII rune: the index of the first byte equal
  to it, and -1 when there is none.
\<close>

fun IndexRune :: "string \<Rightarrow> char \<Rightarrow> int" where
  "IndexRune [] r = - 1"
| "IndexRune (x # xs) r =
     (if x = r then 0
      else (let i = IndexRune xs r in if i < 0 then - 1 else i + 1))"

text \<open>
  \<^verbatim>\<open>strings.ContainsAny(s, chars)\<close> for ASCII \<open>chars\<close>: some byte of \<open>s\<close> is one
  of them.
\<close>

definition ContainsAny :: "string \<Rightarrow> string \<Rightarrow> bool" where
  "ContainsAny s chars = list_ex (\<lambda>x. x \<in> set chars) s"

text \<open>
  The slice expressions \<^verbatim>\<open>s[i:]\<close> and \<^verbatim>\<open>s[:i]\<close>. Go panics at run time when the
  index is outside \<open>0..len(s)\<close>; the panic is the value \<open>None\<close>.
\<close>

definition slice_from :: "'a list \<Rightarrow> int \<Rightarrow> 'a list option" where
  "slice_from s i =
     (if 0 \<le> i \<and> i \<le> int (length s) then Some (drop (nat i) s) else None)"

definition slice_to :: "'a list \<Rightarrow> int \<Rightarrow> 'a list option" where
  "slice_to s i =
     (if 0 \<le> i \<and> i \<le> int (length s) then Some (take (nat i) s) else None)"

section \<open>convertImageTag (lines 63-87)\<close>

text \<open>
  The switch on the number of slashes, in the source's case order (2, 1, 0, default).
  The result is \<open>None\<close> where a slice expression would panic, and \<open>Some\<close> of the
  returned string otherwise.
\<close>

definition convertImageTag :: "string \<Rightarrow> string \<Rightarrow> string option" where
  "convertImageTag domain imageWithoutTag =
     (let n = Count imageWithoutTag CHR ''/'' in
      if n = 2 then
        (let i = IndexRune imageWithoutTag CHR ''/'' in
         case slice_from imageWithoutTag (i + 1) of
           None \<Rightarrow> None
         | Some rest \<Rightarrow> Some (domain @ ''/'' @ rest))
      else if n = 1 then
        (let i = IndexRune imageWithoutTag CHR ''/'' in
         case slice_to imageWithoutTag i of
           None \<Rightarrow> None
         | Some a \<Rightarrow>
             if \<not> ContainsAny a ''.:'' \<and> a \<noteq> ''localhost''
             then Some (domain @ ''/'' @ imageWithoutTag)
             else (case slice_from imageWithoutTag (i + 1) of
                     None \<Rightarrow> None
                   | Some rest \<Rightarrow>
                       Some (domain @ ''/'' @ defaultUserName @ ''/'' @ rest)))
      else if n = 0 then
        Some (domain @ ''/'' @ defaultUserName @ ''/'' @ imageWithoutTag)
      else Some [])"

section \<open>getRegistryUrl (lines 38-61)\<close>

text \<open>
  The resolver is reached by one HTTP GET over the unix socket. What the call gives back
  is not decided by this file: \<^verbatim>\<open>client.Get\<close> either fails with an error or yields a
  response with a status code and a body. The body is an \<^verbatim>\<open>io.Reader\<close>: each call of
  \<^verbatim>\<open>Read\<close> hands over the bytes that are available at that moment, at most as many as
  the buffer holds, and possibly fewer than the rest of the body. The reader is the list
  of the portions in which the body becomes available; the whole body is their
  concatenation.
\<close>

record response =
  StatusCode :: int
  Body :: "string list"

text \<open>
  \<^verbatim>\<open>Body.Read(buf)\<close>: the buffer after the call and the count \<open>n\<close>. With nothing left
  the reader reports end of file with \<open>n = 0\<close> (the error is dropped by the caller).
\<close>

definition Read :: "string list \<Rightarrow> string \<Rightarrow> string \<times> int" where
  "Read body buf =
     (case body of
        [] \<Rightarrow> (buf, 0)
      | portion # _ \<Rightarrow>
          (let got = take (length buf) portion
           in (got @ drop (length got) buf, int (length got))))"

definition bodyBytes :: "response \<Rightarrow> string" where
  "bodyBytes resp = concat (Body resp)"

definition getRegistryUrl :: "(string \<Rightarrow> 'e + response) \<Rightarrow> string \<Rightarrow> string option" where
  "getRegistryUrl httpGet imageIdWithTags =
     (let url = ''http://dockerd'' @ ''/'' @ imageIdWithTags in
      case httpGet url of
        Inl err \<Rightarrow> Some defaultRegistryUrl
      | Inr resp \<Rightarrow>
          if StatusCode resp = 200 then
            (let buf = replicate 32 (CHR 0x00);
                 (buf', n) = Read (Body resp) buf
             in slice_to buf' n)
          else Some defaultRegistryUrl)"

section \<open>The request, the collaborators and the call log of postImagesCreate\<close>

text \<open>
  \<^verbatim>\<open>url.Values\<close> and \<^verbatim>\<open>http.Header\<close> are maps from a name to its list of values; they
  are association lists here. \<^verbatim>\<open>Get\<close> gives the first value of a name and the empty
  string when there is none (\<^verbatim>\<open>r.FormValue\<close> reads the parsed form the same way);
  \<open>values_at\<close> is the index expression \<^verbatim>\<open>r.Form["changes"]\<close>.
\<close>

type_synonym "values" = "(string \<times> string list) list"

definition Get :: "values \<Rightarrow> string \<Rightarrow> string" where
  "Get v key =
     (case map_of v key of
        None \<Rightarrow> []
      | Some vs \<Rightarrow> (case vs of [] \<Rightarrow> [] | x # _ \<Rightarrow> x))"

definition values_at :: "values \<Rightarrow> string \<Rightarrow> string list" where
  "values_at v key = (case map_of v key of None \<Rightarrow> [] | Some vs \<Rightarrow> vs)"

text \<open>
  Modelled from the spec: the declarations of \<^verbatim>\<open>specs.Platform\<close> and
  \<^verbatim>\<open>types.AuthConfig\<close> are not part of image\_routes.go. The spec gives a platform as
  \<open>{os, architecture, variant}\<close> and the credentials as username, password and identity
  token.
\<close>

record Platform =
  OS :: string
  Architecture :: string
  Variant :: string

record AuthConfig =
  Username :: string
  Password :: string
  IdentityToken :: string

definition emptyAuthConfig :: AuthConfig where
  "emptyAuthConfig = \<lparr>Username = [], Password = [], IdentityToken = []\<rparr>"

text \<open>
  The request as the handler reads it: the error of \<^verbatim>\<open>httputils.ParseForm(r)\<close> if
  there is one, the parsed form, the headers, the body and the API version carried by the
  context.
\<close>

record 'e request =
  parseFormErr :: "'e option"
  reqForm :: "values"
  reqHeader :: "values"
  reqBody :: string
  apiVersion :: string

text \<open>
  Everything the handler calls that is not defined in image\_routes.go is a parameter:
  the HTTP client of the resolver, the version comparison, the platform parser and
  validator, the decoding of the auth header (base64, then JSON; \<open>None\<close> when it
  fails), the four backend operations, the reference library and the output sink. The
  backend has a state \<open>'b\<close> that its operations read and change; the sink has a state
  \<open>'o\<close>. A Go function that returns \<^verbatim>\<open>(value, error)\<close> returns a pair here, and
  \<^verbatim>\<open>ParseNormalizedNamed\<close> either an error (with a nil reference) or a reference.
  \<^verbatim>\<open>ImageDelete\<close> also returns a list of response items, which the handler drops.
  \<open>familiarName\<close> is what \<^verbatim>\<open>reference.FamiliarString\<close> gives for a reference that
  is not nil.
\<close>

record ('b, 'o, 'e, 'r) env =
  clientGet :: "string \<Rightarrow> 'e + response"
  GreaterThanOrEqualTo :: "string \<Rightarrow> string \<Rightarrow> bool"
  platformsParse :: "string \<Rightarrow> 'e + Platform"
  ValidatePlatform :: "Platform \<Rightarrow> 'e option"
  decodeAuth :: "string \<Rightarrow> AuthConfig option"
  PullImage :: "string \<Rightarrow> string \<Rightarrow> Platform option \<Rightarrow> values \<Rightarrow> AuthConfig
                  \<Rightarrow> 'o \<Rightarrow> 'b \<Rightarrow> 'e option \<times> 'o \<times> 'b"
  TagImage :: "string \<Rightarrow> string \<Rightarrow> string \<Rightarrow> 'b \<Rightarrow> (string \<times> 'e option) \<times> 'b"
  ImageDelete :: "string \<Rightarrow> bool \<Rightarrow> bool \<Rightarrow> 'b \<Rightarrow> 'e option \<times> 'b"
  ImportImage :: "string \<Rightarrow> string \<Rightarrow> string \<Rightarrow> string \<Rightarrow> string \<Rightarrow> string
                  \<Rightarrow> 'o \<Rightarrow> string list \<Rightarrow> 'b \<Rightarrow> 'e option \<times> 'o \<times> 'b"
  ParseNormalizedNamed :: "string \<Rightarrow> 'e + 'r"
  familiarName :: "'r \<Rightarrow> string"
  SetHeader :: "string \<Rightarrow> string \<Rightarrow> 'o \<Rightarrow> 'o"
  Flushed :: "'o \<Rightarrow> bool"
  Write :: "string \<Rightarrow> 'o \<Rightarrow> 'o"
  Close :: "'o \<Rightarrow> 'o"
  FormatError :: "'e \<Rightarrow> string"

text \<open>
  The handler's calls, in the order in which it makes them: the two functions of the
  file, the backend operations with their arguments, the reference library, the
  handler's own write to the sink, the deferred close, and \<^verbatim>\<open>logrus.Error\<close>.
\<close>

datatype ('e, 'r) call =
    Call_getRegistryUrl string
  | Call_convertImageTag string string
  | Call_PullImage string string "Platform option" "values" AuthConfig
  | Call_TagImage string string string
  | Call_ParseNormalizedNamed string
  | Call_FamiliarString "'r option"
  | Call_ImageDelete string bool bool
  | Call_ImportImage string string string string string string "string list"
  | Call_Write string
  | Call_Close
  | Log_Error 'e

text \<open>
  What a run of the handler leaves: the error it returns (\<open>None\<close> for nil), the state
  of the backend and of the sink, and the log of its calls.
\<close>

record ('b, 'o, 'e, 'r) result =
  returned :: "'e option"
  backendState :: 'b
  outputSink :: 'o
  calls :: "('e, 'r) call list"

text \<open>
  A run either returns, or it panics; a panic leaves the backend and the sink as they
  are at that moment (the deferred close has run) and the log of the calls made so far.
  The server recovers the panic and drops the connection: nothing is returned, and
  nothing more is written.
\<close>

datatype ('b, 'o, 'e, 'r) outcome =
    Returns "('b, 'o, 'e, 'r) result"
  | Panics 'b 'o "('e, 'r) call list"

definition callsOf :: "('b, 'o, 'e, 'r) outcome \<Rightarrow> ('e, 'r) call list" where
  "callsOf run = (case run of Returns res \<Rightarrow> calls res | Panics b out log \<Rightarrow> log)"

text \<open>
  \<^verbatim>\<open>reference.FamiliarString(ref)\<close> belongs to the reference library, not to
  image\_routes.go. It takes a reference as an interface value and ends in a call of the
  value's \<^verbatim>\<open>String\<close> method. The handler passes the reference that
  \<^verbatim>\<open>ParseNormalizedNamed\<close> returned, which is nil when the parse failed; a method call
  on the nil interface value is a nil dereference, a run-time panic (\<open>None\<close>).
\<close>

definition FamiliarString :: "('b, 'o, 'e, 'r) env \<Rightarrow> 'r option \<Rightarrow> string option" where
  "FamiliarString env ref =
     (case ref of
        None \<Rightarrow> None
      | Some named \<Rightarrow> Some (familiarName env named))"

section \<open>postImagesCreate (lines 90-191)\<close>

text \<open>Lines 112-125: the platform, parsed and validated from API version 1.32 on.\<close>

definition parsePlatform :: "('b, 'o, 'e, 'r) env \<Rightarrow> 'e request \<Rightarrow> 'e + Platform option" where
  "parsePlatform env r =
     (let version = apiVersion r in
      if GreaterThanOrEqualTo env version ''1.32'' then
        (let apiPlatform = Get (reqForm r) ''platform'' in
         if apiPlatform \<noteq> [] then
           (case platformsParse env apiPlatform of
              Inl err \<Rightarrow> Inl err
            | Inr sp \<Rightarrow>
                (case ValidatePlatform env sp of
                   Some err \<Rightarrow> Inl err
                 | None \<Rightarrow> Inr (Some sp)))
         else Inr None)
      else Inr None)"

text \<open>Lines 128-133: the headers whose name starts with \<^verbatim>\<open>X-Meta-\<close>.\<close>

definition metaHeaders :: "'e request \<Rightarrow> values" where
  "metaHeaders r = filter (\<lambda>(k, v). prefix ''X-Meta-'' k) (reqHeader r)"

text \<open>
  Lines 135-144: the credentials of the \<^verbatim>\<open>X-Registry-Auth\<close> header; empty when the
  header is absent and when it does not decode.
\<close>

definition authConfig :: "('b, 'o, 'e, 'r) env \<Rightarrow> 'e request \<Rightarrow> AuthConfig" where
  "authConfig env r =
     (let authEncoded = Get (reqHeader r) ''X-Registry-Auth'' in
      if authEncoded \<noteq> [] then
        (case decodeAuth env authEncoded of
           None \<Rightarrow> emptyAuthConfig
         | Some decoded \<Rightarrow> decoded)
      else emptyAuthConfig)"

text \<open>
  Lines 183-190 and the deferred \<^verbatim>\<open>output.Close()\<close> of line 105: an error of the pull
  or of the import is returned when nothing has been flushed, and is otherwise written
  to the sink in the format of \<^verbatim>\<open>streamformatter.FormatError\<close> while the handler
  returns nil.
\<close>

definition surfaceError ::
  "('b, 'o, 'e, 'r) env \<Rightarrow> 'e option \<Rightarrow> 'b \<Rightarrow> 'o \<Rightarrow> ('e, 'r) call list
     \<Rightarrow> ('b, 'o, 'e, 'r) result" where
  "surfaceError env err b out log =
     (case err of
        None \<Rightarrow>
          \<lparr>returned = None, backendState = b, outputSink = Close env out,
           calls = log @ [Call_Close]\<rparr>
      | Some e \<Rightarrow>
          if \<not> Flushed env out then
            \<lparr>returned = Some e, backendState = b, outputSink = Close env out,
             calls = log @ [Call_Close]\<rparr>
          else
            \<lparr>returned = None, backendState = b,
             outputSink = Close env (Write env (FormatError env e) out),
             calls = log @ [Call_Write (FormatError env e), Call_Close]\<rparr>)"

text \<open>
  The handler. The first return (line 93) comes before the sink is made, so nothing is
  closed there; every later return, and a panic, runs the deferred close. Line 164
  drops the error of the parse and line 165 hands the reference, nil after a failed
  parse, to FamiliarString: the handler panics there, after the pull and the retag and
  before the delete and before lines 183-190.
\<close>

definition postImagesCreate ::
  "('b, 'o, 'e, 'r) env \<Rightarrow> 'e request \<Rightarrow> 'o \<Rightarrow> 'b \<Rightarrow> ('b, 'o, 'e, 'r) outcome" where
  "postImagesCreate env r w b =
     (case parseFormErr r of
        Some err \<Rightarrow>
          Returns \<lparr>returned = Some err, backendState = b, outputSink = w, calls = []\<rparr>
      | None \<Rightarrow>
     (let fromImage = Get (reqForm r) ''fromImage'';
          repo = Get (reqForm r) ''repo'';
          tag = Get (reqForm r) ''tag'';
          message = Get (reqForm r) ''message'';
          out = SetHeader env ''Content-Type'' ''application/json'' w
      in
      case parsePlatform env r of
        Inl err \<Rightarrow>
          Returns \<lparr>returned = Some err, backendState = b, outputSink = Close env out,
                   calls = [Call_Close]\<rparr>
      | Inr platform \<Rightarrow>
      if fromImage \<noteq> [] then
        (case getRegistryUrl (clientGet env) (fromImage @ '':'' @ tag) of
           None \<Rightarrow>
             Panics b (Close env out)
               [Call_getRegistryUrl (fromImage @ '':'' @ tag), Call_Close]
         | Some registryUrl \<Rightarrow>
        (case convertImageTag registryUrl fromImage of
           None \<Rightarrow>
             Panics b (Close env out)
               [Call_getRegistryUrl (fromImage @ '':'' @ tag),
                Call_convertImageTag registryUrl fromImage, Call_Close]
         | Some newImage \<Rightarrow>
        (let (err, out1, b1) =
               PullImage env newImage tag platform (metaHeaders r) (authConfig env r) out b;
             srcTotalImage = newImage @ '':'' @ tag;
             ((newRetagReturn, retagError), b2) = TagImage env srcTotalImage fromImage tag b1;
             retagLog = (case retagError of None \<Rightarrow> [] | Some e \<Rightarrow> [Log_Error e]);
             srcTotalImageRef =
               (case ParseNormalizedNamed env srcTotalImage of
                  Inl _ \<Rightarrow> None
                | Inr named \<Rightarrow> Some named);
             log =
               [Call_getRegistryUrl (fromImage @ '':'' @ tag),
                Call_convertImageTag registryUrl fromImage,
                Call_PullImage newImage tag platform (metaHeaders r) (authConfig env r),
                Call_TagImage srcTotalImage fromImage tag]
               @ retagLog
               @ [Call_ParseNormalizedNamed srcTotalImage,
                  Call_FamiliarString srcTotalImageRef]
         in
         case FamiliarString env srcTotalImageRef of
           None \<Rightarrow> Panics b2 (Close env out1) (log @ [Call_Close])
         | Some familiar \<Rightarrow>
        (let (removeLog, b3) =
               (if newRetagReturn \<noteq> familiar then
                  (let (removeError, b3) = ImageDelete env srcTotalImage False True b2
                   in (Call_ImageDelete srcTotalImage False True
                         # (case removeError of None \<Rightarrow> [] | Some e \<Rightarrow> [Log_Error e]),
                       b3))
                else ([], b2))
         in Returns (surfaceError env err b3 out1 (log @ removeLog))))))
      else
        (let src = Get (reqForm r) ''fromSrc'';
             os = (case platform of None \<Rightarrow> [] | Some p \<Rightarrow> OS p);
             (err, out1, b1) =
               ImportImage env src repo os tag message (reqBody r) out
                 (values_at (reqForm r) ''changes'') b
         in Returns (surfaceError env err b1 out1
              [Call_ImportImage src repo os tag message (reqBody r)
                 (values_at (reqForm r) ''changes'')]))))"

section \<open>A concrete environment for the scenarios\<close>

text \<open>
  A small backend on which the handler can be run. The image store is the list of the
  references it holds, the sink is the list of the chunks flushed to the client, errors
  are messages, and a parsed reference is its normalized name. The resolver knows
  \<open>nginx:latest\<close> and is unreachable for everything else. A pull of
  \<open>myreg.io/library/nginx\<close> or \<open>docker.io/library/busybox\<close> succeeds (with the tag
  \<open>latest\<close> when none is given), a pull of \<open>docker.io/library/nginx\<close> fails after
  progress has been flushed, and every other pull fails before anything is written.
  The reference parser knows the four well-formed references of the scenarios and
  rejects every other string, among them the strings that start or end with a colon.
  The familiar name drops the prefix \<open>docker.io/library/\<close>, and otherwise the prefix
  \<open>docker.io/\<close>.
\<close>

definition scenarioEnv :: "(string list, string list, string, string) env" where
  "scenarioEnv =
     \<lparr>clientGet = (\<lambda>url.
        if url = ''http://dockerd/nginx:latest''
        then Inr \<lparr>StatusCode = 200, Body = [''myreg.io'']\<rparr>
        else Inl ''dial unix /tmp/server.sock: connect: connection refused''),
      GreaterThanOrEqualTo = (\<lambda>v other. v \<in> set [''1.32'', ''1.40'', ''1.41'']),
      platformsParse = (\<lambda>s.
        if s = ''linux''
        then Inr \<lparr>OS = ''linux'', Architecture = ''amd64'', Variant = []\<rparr>
        else Inl ''invalid platform''),
      ValidatePlatform = (\<lambda>p. None),
      decodeAuth = (\<lambda>s. None),
      PullImage = (\<lambda>name tag platform headers auth out store.
        if name = []
        then (Some ''invalid reference format'', out, store)
        else if name = ''myreg.io/library/nginx'' \<or> name = ''docker.io/library/busybox''
        then (None, out @ [''Pulling from '' @ name],
              store @ [name @ '':'' @ (if tag = [] then ''latest'' else tag)])
        else if name = ''docker.io/library/nginx''
        then (Some ''connection reset by peer'', out @ [''Pulling from '' @ name], store)
        else (Some ''pull access denied'', out, store)),
      TagImage = (\<lambda>src repo tag store.
        if src \<in> set store
        then ((repo @ '':'' @ tag, None), store @ [repo @ '':'' @ tag])
        else (([], Some ''No such image''), store)),
      ImageDelete = (\<lambda>ref force prune store.
        if ref \<in> set store
        then (None, removeAll ref store)
        else (Some ''No such image'', store)),
      ImportImage = (\<lambda>src repo os tag message body out changes store.
        if src = []
        then (Some ''empty source'', out, store)
        else (None, out @ [''Imported''], store @ [repo @ '':'' @ tag])),
      ParseNormalizedNamed = (\<lambda>s.
        if s \<in> set [''myreg.io/library/nginx:latest'', ''docker.io/library/busybox:latest'',
                      ''docker.io/library/nginx:stable'', ''docker.io/library/ghost:latest'']
        then Inr s
        else Inl ''invalid reference format''),
      familiarName = (\<lambda>n.
        if prefix ''docker.io/library/'' n then drop 18 n
        else if prefix ''docker.io/'' n then drop 10 n
        else n),
      SetHeader = (\<lambda>k v out. out),
      Flushed = (\<lambda>out. out \<noteq> []),
      Write = (\<lambda>chunk out. out @ [chunk]),
      Close = (\<lambda>out. out),
      FormatError = (\<lambda>e. ''errorDetail: '' @ e)\<rparr>"

definition pullRequest :: "string \<Rightarrow> string \<Rightarrow> string request" where
  "pullRequest name tag =
     \<lparr>parseFormErr = None,
      reqForm = [(''fromImage'', [name]), (''tag'', [tag])],
      reqHeader = [(''X-Meta-Source'', [''ci'']), (''User-Agent'', [''docker'']) ],
      reqBody = [],
      apiVersion = ''1.41''\<rparr>"

definition importRequest :: "string \<Rightarrow> string request" where
  "importRequest src =
     \<lparr>parseFormErr = None,
      reqForm = [(''fromSrc'', [src]), (''repo'', [''myrepo'']), (''tag'', [''v1'']),
                 (''message'', [''initial'']), (''platform'', [''linux'']),
                 (''changes'', [''ENV A=1'', ''CMD sh''])],
      reqHeader = [],
      reqBody = ''tarball'',
      apiVersion = ''1.41''\<rparr>"

section \<open>Facts about the string operations\<close>

lemma Count_append: "Count (a @ b) c = Count a c + Count b c"
  by (simp add: Count_def)

lemma Count_Cons: "Count (x # xs) c = (if x = c then 1 else 0) + Count xs c"
  by (simp add: Count_def)

lemma Count_zero_iff: "Count s c = 0 \<longleftrightarrow> c \<notin> set s"
  by (induction s) (auto simp: Count_def)

lemma IndexRune_first: "c \<notin> set a \<Longrightarrow> IndexRune (a @ c # b) c = int (length a)"
  by (induction a) (auto simp: Let_def)

lemma IndexRune_range:
  "c \<in> set s \<Longrightarrow> 0 \<le> IndexRune s c \<and> IndexRune s c < int (length s)"
  by (induction s) (auto simp: Let_def)

lemma ContainsAny_dot_colon:
  "ContainsAny a ''.:'' \<longleftrightarrow> CHR ''.'' \<in> set a \<or> CHR '':'' \<in> set a"
  by (auto simp: ContainsAny_def list_ex_iff)

lemma slice_from_split: "slice_from (a @ c # b) (int (length a) + 1) = Some b"
  by (simp add: slice_from_def nat_add_distrib)

lemma slice_to_split: "slice_to (a @ c # b) (int (length a)) = Some a"
  by (simp add: slice_to_def)

text \<open>
  A name with one slash is \<open>a/b\<close>, and a name with two is \<open>a/b/c\<close>, with no slash
  in the parts: the three forms of the case table cover the names with at most two
  separators.
\<close>

lemma one_separator_form:
  assumes "Count s CHR ''/'' = 1"
  shows "\<exists>a b. s = a @ ''/'' @ b \<and> CHR ''/'' \<notin> set a \<and> CHR ''/'' \<notin> set b"
proof -
  have "CHR ''/'' \<in> set s"
    using assms Count_zero_iff[of s "CHR ''/''"] by auto
  then obtain a b where ab: "s = a @ CHR ''/'' # b" "CHR ''/'' \<notin> set a"
    by (meson split_list_first)
  have "Count a CHR ''/'' = 0"
    using ab(2) by (simp add: Count_zero_iff)
  then have "Count b CHR ''/'' = 0"
    using assms ab(1) by (simp add: Count_append Count_Cons)
  then have "CHR ''/'' \<notin> set b"
    by (simp add: Count_zero_iff)
  then show ?thesis
    using ab by auto
qed

lemma two_separator_form:
  assumes "Count s CHR ''/'' = 2"
  shows "\<exists>a b c. s = a @ ''/'' @ b @ ''/'' @ c \<and> CHR ''/'' \<notin> set a
           \<and> CHR ''/'' \<notin> set b \<and> CHR ''/'' \<notin> set c"
proof -
  have "CHR ''/'' \<in> set s"
    using assms Count_zero_iff[of s "CHR ''/''"] by auto
  then obtain a t where at: "s = a @ CHR ''/'' # t" "CHR ''/'' \<notin> set a"
    by (meson split_list_first)
  have "Count a CHR ''/'' = 0"
    using at(2) by (simp add: Count_zero_iff)
  then have "Count t CHR ''/'' = 1"
    using assms at(1) by (simp add: Count_append Count_Cons)
  then obtain b c where bc: "t = b @ ''/'' @ c" "CHR ''/'' \<notin> set b" "CHR ''/'' \<notin> set c"
    using one_separator_form by blast
  show ?thesis
    using at bc by auto
qed

section \<open>convertImageTag: the case table\<close>

lemma convertImageTag_no_separator:
  "CHR ''/'' \<notin> set img \<Longrightarrow> convertImageTag d img = Some (d @ ''/library/'' @ img)"
  using Count_zero_iff[of img "CHR ''/''"]
  by (simp add: convertImageTag_def defaultUserName_def)

lemma convertImageTag_one_separator:
  assumes "CHR ''/'' \<notin> set a" and "CHR ''/'' \<notin> set b"
  shows "convertImageTag d (a @ ''/'' @ b) =
     Some (if CHR ''.'' \<notin> set a \<and> CHR '':'' \<notin> set a \<and> a \<noteq> ''localhost''
           then d @ ''/'' @ a @ ''/'' @ b else d @ ''/library/'' @ b)"
proof -
  have n: "Count (a @ ''/'' @ b) CHR ''/'' = 1"
    using assms Count_zero_iff[of a "CHR ''/''"] Count_zero_iff[of b "CHR ''/''"]
    by (simp add: Count_append Count_Cons)
  have i: "IndexRune (a @ ''/'' @ b) CHR ''/'' = int (length a)"
    using assms(1) IndexRune_first[of "CHR ''/''" a b] by simp
  have st: "slice_to (a @ ''/'' @ b) (int (length a)) = Some a"
    using slice_to_split[of a "CHR ''/''" b] by simp
  have sf: "slice_from (a @ ''/'' @ b) (int (length a) + 1) = Some b"
    using slice_from_split[of a "CHR ''/''" b] by simp
  show ?thesis
    unfolding convertImageTag_def Let_def n i st sf
    by (simp add: ContainsAny_dot_colon defaultUserName_def)
qed

lemma convertImageTag_two_separators:
  assumes "CHR ''/'' \<notin> set a" and "CHR ''/'' \<notin> set b" and "CHR ''/'' \<notin> set c"
  shows "convertImageTag d (a @ ''/'' @ b @ ''/'' @ c) = Some (d @ ''/'' @ b @ ''/'' @ c)"
proof -
  have n: "Count (a @ ''/'' @ b @ ''/'' @ c) CHR ''/'' = 2"
    using assms Count_zero_iff[of a "CHR ''/''"] Count_zero_iff[of b "CHR ''/''"]
      Count_zero_iff[of c "CHR ''/''"]
    by (simp add: Count_append Count_Cons)
  have i: "IndexRune (a @ ''/'' @ b @ ''/'' @ c) CHR ''/'' = int (length a)"
    using assms(1) IndexRune_first[of "CHR ''/''" a "b @ ''/'' @ c"] by simp
  have sf: "slice_from (a @ ''/'' @ b @ ''/'' @ c) (int (length a) + 1) = Some (b @ ''/'' @ c)"
    using slice_from_split[of a "CHR ''/''" "b @ ''/'' @ c"] by simp
  show ?thesis
    unfolding convertImageTag_def Let_def n i sf by simp
qed

text \<open>No slice of convertImageTag is out of range: the function returns on every input.\<close>

lemma convertImageTag_returns: "\<exists>s. convertImageTag d img = Some s"
proof (cases "CHR ''/'' \<in> set img")
  case False
  then show ?thesis
    using convertImageTag_no_separator by blast
next
  case True
  have "0 \<le> IndexRune img CHR ''/'' \<and> IndexRune img CHR ''/'' < int (length img)"
    using IndexRune_range[OF True] .
  then show ?thesis
    by (auto simp: convertImageTag_def Let_def slice_from_def slice_to_def)
qed

text \<open>
  C1. For every domain \<open>d\<close>, convertImageTag follows the case table: a name without a
  slash gives \<open>d/library/name\<close>; a name \<open>a/b\<close> gives \<open>d/a/b\<close> when \<open>a\<close> has no dot, no
  colon and is not \<open>localhost\<close>, and \<open>d/library/b\<close> otherwise; a name \<open>a/b/c\<close> gives
  \<open>d/b/c\<close>.
\<close>

theorem convertImageTag_case_table:
  "(CHR ''/'' \<notin> set img \<longrightarrow> convertImageTag d img = Some (d @ ''/library/'' @ img)) \<and>
   (CHR ''/'' \<notin> set a \<and> CHR ''/'' \<notin> set b \<longrightarrow>
      convertImageTag d (a @ ''/'' @ b) =
        Some (if CHR ''.'' \<notin> set a \<and> CHR '':'' \<notin> set a \<and> a \<noteq> ''localhost''
              then d @ ''/'' @ a @ ''/'' @ b else d @ ''/library/'' @ b)) \<and>
   (CHR ''/'' \<notin> set a' \<and> CHR ''/'' \<notin> set b' \<and> CHR ''/'' \<notin> set c' \<longrightarrow>
      convertImageTag d (a' @ ''/'' @ b' @ ''/'' @ c') = Some (d @ ''/'' @ b' @ ''/'' @ c'))"
  using convertImageTag_no_separator[of img d] convertImageTag_one_separator[of a b d]
    convertImageTag_two_separators[of a' b' c' d]
  by blast

theorem convertImageTag_case_table_witness:
  "convertImageTag ''r'' ''nginx'' = Some ''r/library/nginx'' \<and>
   convertImageTag ''r'' ''myuser/nginx'' = Some ''r/myuser/nginx'' \<and>
   convertImageTag ''r'' ''localhost/nginx'' = Some ''r/library/nginx'' \<and>
   convertImageTag ''r'' ''registry.example.com/nginx'' = Some ''r/library/nginx'' \<and>
   convertImageTag ''r'' ''oldreg.io/myuser/nginx'' = Some ''r/myuser/nginx''"
  using convertImageTag_case_table[of "''nginx''" "''r''" "''myuser''" "''nginx''"
      "''oldreg.io''" "''myuser''" "''nginx''"]
    convertImageTag_case_table[of "''nginx''" "''r''" "''localhost''" "''nginx''"
      "''oldreg.io''" "''myuser''" "''nginx''"]
    convertImageTag_case_table[of "''nginx''" "''r''" "''registry.example.com''" "''nginx''"
      "''oldreg.io''" "''myuser''" "''nginx''"]
  by simp

text \<open>
  C7. For every domain and every name with three or more slashes, convertImageTag
  returns the empty string.
\<close>

theorem convertImageTag_three_or_more_separators:
  "3 \<le> Count img CHR ''/'' \<Longrightarrow> convertImageTag d img = Some []"
  by (simp add: convertImageTag_def Let_def)

theorem convertImageTag_three_or_more_separators_witness:
  "3 \<le> Count ''a/b/c/d'' CHR ''/'' \<and> convertImageTag ''r'' ''a/b/c/d'' = Some []"
  using convertImageTag_three_or_more_separators[of "''a/b/c/d''" "''r''"]
  by (simp add: Count_def)

section \<open>getRegistryUrl: the fallback and the single read\<close>

lemma Read_then_slice:
  assumes "Read body (replicate 32 z) = (buf', n)"
  shows "slice_to buf' n =
     Some (take 32 (case body of [] \<Rightarrow> [] | portion # _ \<Rightarrow> portion))"
proof (cases body)
  case Nil
  have "n = 0"
    using assms Nil unfolding Read_def by simp
  then show ?thesis
    using Nil by (simp add: slice_to_def)
next
  case (Cons p ps)
  have l: "length (replicate 32 z) = 32"
    by simp
  have "buf' = take 32 p @ drop (length (take 32 p)) (replicate 32 z)"
    and "n = int (length (take 32 p))"
    using assms Cons unfolding Read_def Let_def l by simp_all
  then show ?thesis
    using Cons by (cases "length p \<le> 32") (simp_all add: slice_to_def min_def)
qed

lemma resolver_url: "''http://dockerd'' @ ''/'' @ x = ''http://dockerd/'' @ x"
  by simp

lemma getRegistryUrl_status_200:
  assumes "httpGet (''http://dockerd/'' @ x) = Inr resp" and "StatusCode resp = 200"
  shows "getRegistryUrl httpGet x =
     Some (take 32 (case Body resp of [] \<Rightarrow> [] | portion # _ \<Rightarrow> portion))"
proof -
  obtain buf' n where r: "Read (Body resp) (replicate 32 (CHR 0x00)) = (buf', n)"
    by (cases "Read (Body resp) (replicate 32 (CHR 0x00))")
  show ?thesis
    unfolding getRegistryUrl_def Let_def resolver_url
    by (simp only: assms sum.case if_True r prod.case Read_then_slice[OF r] refl)
qed

lemma getRegistryUrl_no_connection:
  assumes "httpGet (''http://dockerd/'' @ x) = Inl err"
  shows "getRegistryUrl httpGet x = Some ''docker.io''"
  unfolding getRegistryUrl_def Let_def resolver_url defaultRegistryUrl_def
  by (simp only: assms sum.case)

lemma getRegistryUrl_other_status:
  assumes "httpGet (''http://dockerd/'' @ x) = Inr resp" and "StatusCode resp \<noteq> 200"
  shows "getRegistryUrl httpGet x = Some ''docker.io''"
  unfolding getRegistryUrl_def Let_def resolver_url defaultRegistryUrl_def
  by (simp only: assms sum.case if_False)

lemma getRegistryUrl_returns: "\<exists>domain. getRegistryUrl httpGet x = Some domain"
proof (cases "httpGet (''http://dockerd/'' @ x)")
  case (Inl err)
  show ?thesis
    unfolding getRegistryUrl_no_connection[of httpGet x err, OF Inl]
    by (rule exI) (rule refl)
next
  case (Inr resp)
  show ?thesis
  proof (cases "StatusCode resp = 200")
    case True
    show ?thesis
      unfolding getRegistryUrl_status_200[of httpGet x resp, OF Inr True]
      by (rule exI) (rule refl)
  next
    case False
    show ?thesis
      unfolding getRegistryUrl_other_status[of httpGet x resp, OF Inr False]
      by (rule exI) (rule refl)
  qed
qed

text \<open>
  C5. getRegistryUrl returns a domain on every input (it neither panics nor has an error
  result), and the domain is \<open>docker.io\<close> when the GET fails and when the status is
  not 200.
\<close>

theorem getRegistryUrl_never_fails:
  "(\<exists>domain. getRegistryUrl httpGet x = Some domain) \<and>
   (\<forall>err. httpGet (''http://dockerd/'' @ x) = Inl err \<longrightarrow>
      getRegistryUrl httpGet x = Some ''docker.io'') \<and>
   (\<forall>resp. httpGet (''http://dockerd/'' @ x) = Inr resp \<and> StatusCode resp \<noteq> 200 \<longrightarrow>
      getRegistryUrl httpGet x = Some ''docker.io'')"
proof (intro conjI allI impI)
  show "\<exists>domain. getRegistryUrl httpGet x = Some domain"
    by (rule getRegistryUrl_returns)
next
  fix err
  assume "httpGet (''http://dockerd/'' @ x) = Inl err"
  then show "getRegistryUrl httpGet x = Some ''docker.io''"
    by (rule getRegistryUrl_no_connection[of httpGet x err])
next
  fix resp
  assume "httpGet (''http://dockerd/'' @ x) = Inr resp \<and> StatusCode resp \<noteq> 200"
  then show "getRegistryUrl httpGet x = Some ''docker.io''"
    using getRegistryUrl_other_status[of httpGet x resp] by simp
qed

theorem getRegistryUrl_never_fails_witness:
  "getRegistryUrl (\<lambda>url. Inl ''connection refused'' :: string + response) ''nginx:latest''
     = Some ''docker.io'' \<and>
   getRegistryUrl (\<lambda>url. Inr \<lparr>StatusCode = 404, Body = [''not found'']\<rparr> :: string + response)
     ''nginx:latest'' = Some ''docker.io''"
  using getRegistryUrl_never_fails[of "\<lambda>url. Inl ''connection refused'' :: string + response"
      "''nginx:latest''"]
    getRegistryUrl_never_fails[of
      "\<lambda>url. Inr \<lparr>StatusCode = 404, Body = [''not found'']\<rparr> :: string + response"
      "''nginx:latest''"]
  by simp

text \<open>
  With status 200 the function returns what its single read delivers into the 32-byte
  buffer: the first portion of the body cut to 32 bytes. That is the body itself, or
  its first 32 bytes, only when the whole body is available to that one read.
\<close>

lemma getRegistryUrl_single_read:
  assumes "httpGet (''http://dockerd/'' @ x) = Inr resp" and "StatusCode resp = 200"
  shows "(\<exists>domain. getRegistryUrl httpGet x = Some domain \<and>
            prefix domain (bodyBytes resp) \<and> length domain \<le> 32 \<and>
            domain = take 32 (case Body resp of [] \<Rightarrow> [] | portion # _ \<Rightarrow> portion)) \<and>
         (\<forall>body. Body resp = [body] \<longrightarrow>
            bodyBytes resp = body \<and>
            getRegistryUrl httpGet x = Some (if length body \<le> 32 then body else take 32 body))"
proof -
  let ?first = "case Body resp of [] \<Rightarrow> [] | portion # _ \<Rightarrow> portion"
  have g: "getRegistryUrl httpGet x = Some (take 32 ?first)"
    using getRegistryUrl_status_200[of httpGet x resp, OF assms] .
  have "prefix ?first (bodyBytes resp)"
    by (cases "Body resp") (simp_all add: bodyBytes_def)
  then have p: "prefix (take 32 ?first) (bodyBytes resp)"
    using take_is_prefix prefix_order.trans by blast
  have one: "bodyBytes resp = body \<and>
      getRegistryUrl httpGet x = Some (if length body \<le> 32 then body else take 32 body)"
    if "Body resp = [body]" for body
    using that g by (simp add: bodyBytes_def)
  show ?thesis
    using g p one by simp
qed

text \<open>
  C6. The claim fails on the code: the function calls Read once and drops both its
  error and the fact that the count may be short, where the claim needs the body to be
  read until 32 bytes or its end. Here the status is 200 and the body \<open>docker.io\<close> has
  9 bytes, which become available in two portions; the function returns \<open>dock\<close>.
\<close>

theorem getRegistryUrl_short_read:
  "getRegistryUrl
     (\<lambda>url. Inr \<lparr>StatusCode = 200, Body = [''dock'', ''er.io'']\<rparr> :: string + response)
     ''nginx:latest'' = Some ''dock'' \<and>
   bodyBytes \<lparr>StatusCode = 200, Body = [''dock'', ''er.io'']\<rparr> = ''docker.io'' \<and>
   length (bodyBytes \<lparr>StatusCode = 200, Body = [''dock'', ''er.io'']\<rparr>) \<le> 32"
  using getRegistryUrl_status_200[of
      "\<lambda>url. Inr \<lparr>StatusCode = 200, Body = [''dock'', ''er.io'']\<rparr> :: string + response"
      "''nginx:latest''" "\<lparr>StatusCode = 200, Body = [''dock'', ''er.io'']\<rparr>"]
  by (simp add: bodyBytes_def)

section \<open>postImagesCreate: the pull path\<close>

text \<open>
  One run of the pull path, with the results of the collaborators named. When the
  intermediate reference parses the handler returns; when it does not, the handler
  panics after the retag.
\<close>

lemma pull_returns:
  assumes "parseFormErr r = None" and "parsePlatform env r = Inr platform"
    and "Get (reqForm r) ''fromImage'' = img" and "img \<noteq> []"
    and "Get (reqForm r) ''tag'' = tag"
    and "getRegistryUrl (clientGet env) (img @ '':'' @ tag) = Some registryUrl"
    and "convertImageTag registryUrl img = Some newImage"
    and "PullImage env newImage tag platform (metaHeaders r) (authConfig env r)
           (SetHeader env ''Content-Type'' ''application/json'' w) b = (err, out1, b1)"
    and "TagImage env (newImage @ '':'' @ tag) img tag b1 = ((ret, terr), b2)"
    and "ImageDelete env (newImage @ '':'' @ tag) False True b2 = (derr, b3)"
    and "ParseNormalizedNamed env (newImage @ '':'' @ tag) = Inr named"
  shows "postImagesCreate env r w b =
     Returns (surfaceError env err
        (if ret \<noteq> familiarName env named then b3 else b2) out1
        ([Call_getRegistryUrl (img @ '':'' @ tag),
          Call_convertImageTag registryUrl img,
          Call_PullImage newImage tag platform (metaHeaders r) (authConfig env r),
          Call_TagImage (newImage @ '':'' @ tag) img tag]
         @ (case terr of None \<Rightarrow> [] | Some e \<Rightarrow> [Log_Error e])
         @ [Call_ParseNormalizedNamed (newImage @ '':'' @ tag),
            Call_FamiliarString (Some named)]
         @ (if ret \<noteq> familiarName env named
            then Call_ImageDelete (newImage @ '':'' @ tag) False True
                   # (case derr of None \<Rightarrow> [] | Some e \<Rightarrow> [Log_Error e])
            else [])))"
  using assms by (simp add: postImagesCreate_def FamiliarString_def Let_def)

lemma pull_panics:
  assumes "parseFormErr r = None" and "parsePlatform env r = Inr platform"
    and "Get (reqForm r) ''fromImage'' = img" and "img \<noteq> []"
    and "Get (reqForm r) ''tag'' = tag"
    and "getRegistryUrl (clientGet env) (img @ '':'' @ tag) = Some registryUrl"
    and "convertImageTag registryUrl img = Some newImage"
    and "PullImage env newImage tag platform (metaHeaders r) (authConfig env r)
           (SetHeader env ''Content-Type'' ''application/json'' w) b = (err, out1, b1)"
    and "TagImage env (newImage @ '':'' @ tag) img tag b1 = ((ret, terr), b2)"
    and "ParseNormalizedNamed env (newImage @ '':'' @ tag) = Inl parseErr"
  shows "postImagesCreate env r w b =
     Panics b2 (Close env out1)
        ([Call_getRegistryUrl (img @ '':'' @ tag),
          Call_convertImageTag registryUrl img,
          Call_PullImage newImage tag platform (metaHeaders r) (authConfig env r),
          Call_TagImage (newImage @ '':'' @ tag) img tag]
         @ (case terr of None \<Rightarrow> [] | Some e \<Rightarrow> [Log_Error e])
         @ [Call_ParseNormalizedNamed (newImage @ '':'' @ tag),
            Call_FamiliarString None,
            Call_Close])"
  using assms by (simp add: postImagesCreate_def FamiliarString_def Let_def)

text \<open>The scenario environment, evaluated.\<close>

lemma scenario_resolver_known:
  "getRegistryUrl (clientGet scenarioEnv) ''nginx:latest'' = Some ''myreg.io''"
  using getRegistryUrl_status_200[of "clientGet scenarioEnv" "''nginx:latest''"
      "\<lparr>StatusCode = 200, Body = [''myreg.io'']\<rparr>"]
  by (simp add: scenarioEnv_def)

lemma scenario_resolver_unreachable:
  "x \<noteq> ''nginx:latest'' \<Longrightarrow> getRegistryUrl (clientGet scenarioEnv) x = Some ''docker.io''"
  using getRegistryUrl_no_connection[of "clientGet scenarioEnv" x
      "''dial unix /tmp/server.sock: connect: connection refused''"]
  by (simp add: scenarioEnv_def)

lemma scenario_rewrites:
  "convertImageTag ''docker.io'' ''nginx'' = Some ''docker.io/library/nginx''"
  "convertImageTag ''docker.io'' ''busybox'' = Some ''docker.io/library/busybox''"
  "convertImageTag ''docker.io'' ''ghost'' = Some ''docker.io/library/ghost''"
  "convertImageTag ''myreg.io'' ''nginx'' = Some ''myreg.io/library/nginx''"
  "convertImageTag ''docker.io'' ''a/b/c/d'' = Some []"
  by (simp_all add: convertImageTag_def Count_def defaultUserName_def)

lemma scenario_request:
  "parseFormErr (pullRequest name tag) = None"
  "parsePlatform scenarioEnv (pullRequest name tag) = Inr None"
  "Get (reqForm (pullRequest name tag)) ''fromImage'' = name"
  "Get (reqForm (pullRequest name tag)) ''tag'' = tag"
  "metaHeaders (pullRequest name tag) = [(''X-Meta-Source'', [''ci''])]"
  "authConfig scenarioEnv (pullRequest name tag) = emptyAuthConfig"
  by (simp_all add: pullRequest_def parsePlatform_def scenarioEnv_def Get_def
      metaHeaders_def authConfig_def)

lemma scenario_ops:
  "PullImage scenarioEnv name tag platform headers auth out store =
     (if name = []
      then (Some ''invalid reference format'', out, store)
      else if name = ''myreg.io/library/nginx'' \<or> name = ''docker.io/library/busybox''
      then (None, out @ [''Pulling from '' @ name],
            store @ [name @ '':'' @ (if tag = [] then ''latest'' else tag)])
      else if name = ''docker.io/library/nginx''
      then (Some ''connection reset by peer'', out @ [''Pulling from '' @ name], store)
      else (Some ''pull access denied'', out, store))"
  "TagImage scenarioEnv src repo tag store =
     (if src \<in> set store
      then ((repo @ '':'' @ tag, None), store @ [repo @ '':'' @ tag])
      else (([], Some ''No such image''), store))"
  "ImageDelete scenarioEnv ref force prune store =
     (if ref \<in> set store then (None, removeAll ref store) else (Some ''No such image'', store))"
  "ImportImage scenarioEnv isrc repo os tag message body out changes store =
     (if isrc = [] then (Some ''empty source'', out, store)
      else (None, out @ [''Imported''], store @ [repo @ '':'' @ tag]))"
  "ParseNormalizedNamed scenarioEnv s =
     (if s \<in> set [''myreg.io/library/nginx:latest'', ''docker.io/library/busybox:latest'',
                    ''docker.io/library/nginx:stable'', ''docker.io/library/ghost:latest'']
      then Inr s
      else Inl ''invalid reference format'')"
  "familiarName scenarioEnv n =
     (if prefix ''docker.io/library/'' n then drop 18 n
      else if prefix ''docker.io/'' n then drop 10 n
      else n)"
  "SetHeader scenarioEnv k v out = out"
  "Flushed scenarioEnv out \<longleftrightarrow> out \<noteq> []"
  "Write scenarioEnv chunk out = out @ [chunk]"
  "Close scenarioEnv out = out"
  "FormatError scenarioEnv e = ''errorDetail: '' @ e"
  by (simp_all add: scenarioEnv_def)

text \<open>
  When the intermediate reference parses, a failed pull is surfaced after the retag and
  the conditional delete: returned when the sink has not been flushed, written to the
  sink otherwise.
\<close>

lemma pull_error_surfaced_when_reference_parses:
  assumes "parseFormErr r = None" and "parsePlatform env r = Inr platform"
    and "Get (reqForm r) ''fromImage'' = img" and "img \<noteq> []"
    and "Get (reqForm r) ''tag'' = tag"
    and "getRegistryUrl (clientGet env) (img @ '':'' @ tag) = Some registryUrl"
    and "convertImageTag registryUrl img = Some newImage"
    and "PullImage env newImage tag platform (metaHeaders r) (authConfig env r)
           (SetHeader env ''Content-Type'' ''application/json'' w) b = (Some e, out1, b1)"
    and "TagImage env (newImage @ '':'' @ tag) img tag b1 = ((newRetagReturn, retagError), b2)"
    and "ImageDelete env (newImage @ '':'' @ tag) False True b2 = (removeError, b3)"
    and "ParseNormalizedNamed env (newImage @ '':'' @ tag) = Inr named"
  shows "postImagesCreate env r w b = Returns
     \<lparr>returned = (if Flushed env out1 then None else Some e),
      backendState = (if newRetagReturn \<noteq> familiarName env named then b3 else b2),
      outputSink =
        Close env (if Flushed env out1 then Write env (FormatError env e) out1 else out1),
      calls =
        [Call_getRegistryUrl (img @ '':'' @ tag),
         Call_convertImageTag registryUrl img,
         Call_PullImage newImage tag platform (metaHeaders r) (authConfig env r),
         Call_TagImage (newImage @ '':'' @ tag) img tag]
        @ (case retagError of None \<Rightarrow> [] | Some x \<Rightarrow> [Log_Error x])
        @ [Call_ParseNormalizedNamed (newImage @ '':'' @ tag),
           Call_FamiliarString (Some named)]
        @ (if newRetagReturn \<noteq> familiarName env named
           then Call_ImageDelete (newImage @ '':'' @ tag) False True
                  # (case removeError of None \<Rightarrow> [] | Some x \<Rightarrow> [Log_Error x])
           else [])
        @ (if Flushed env out1 then [Call_Write (FormatError env e)] else [])
        @ [Call_Close]\<rparr>"
  unfolding pull_returns[OF assms] by (simp add: surfaceError_def)

text \<open>
  C2. The claim fails on the code where the intermediate reference does not parse. For
  \<open>fromImage = a/b/c/d\<close> and \<open>tag = latest\<close> the rewritten name is empty, the pull
  returns an error, the retag runs, and the handler panics in FamiliarString on the nil
  reference: the delete step and lines 183-190 are never reached, and the pull error is
  neither returned nor written.
\<close>

theorem pull_error_lost_when_reference_does_not_parse:
  "PullImage scenarioEnv [] ''latest'' None [(''X-Meta-Source'', [''ci''])] emptyAuthConfig [] []
     = (Some ''invalid reference format'', [], []) \<and>
   postImagesCreate scenarioEnv (pullRequest ''a/b/c/d'' ''latest'') [] [] =
     Panics [] []
       [Call_getRegistryUrl ''a/b/c/d:latest'',
        Call_convertImageTag ''docker.io'' ''a/b/c/d'',
        Call_PullImage [] ''latest'' None [(''X-Meta-Source'', [''ci''])] emptyAuthConfig,
        Call_TagImage '':latest'' ''a/b/c/d'' ''latest'',
        Log_Error ''No such image'',
        Call_ParseNormalizedNamed '':latest'',
        Call_FamiliarString None,
        Call_Close]"
proof -
  have a1: "''a/b/c/d'' \<noteq> []"
    by simp
  have a2: "getRegistryUrl (clientGet scenarioEnv) (''a/b/c/d'' @ '':'' @ ''latest'')
      = Some ''docker.io''"
    by (simp add: scenario_resolver_unreachable)
  have a3: "PullImage scenarioEnv [] ''latest'' None
        (metaHeaders (pullRequest ''a/b/c/d'' ''latest''))
        (authConfig scenarioEnv (pullRequest ''a/b/c/d'' ''latest''))
        (SetHeader scenarioEnv ''Content-Type'' ''application/json'' []) []
      = (Some ''invalid reference format'', [], [])"
    by (simp add: scenario_ops)
  have a4: "TagImage scenarioEnv ([] @ '':'' @ ''latest'') ''a/b/c/d'' ''latest'' []
      = (([], Some ''No such image''), [])"
    by (simp add: scenario_ops)
  have a5: "ParseNormalizedNamed scenarioEnv ([] @ '':'' @ ''latest'')
      = Inl ''invalid reference format''"
    by (simp add: scenario_ops)
  show ?thesis
    unfolding pull_panics[OF scenario_request(1) scenario_request(2) scenario_request(3) a1
        scenario_request(4) a2 scenario_rewrites(5) a3 a4 a5]
    by (simp add: scenario_ops scenario_request)
qed

lemma env_without_retag:
  "parsePlatform (env\<lparr>TagImage := t, ImageDelete := d\<rparr>) r = parsePlatform env r"
  "authConfig (env\<lparr>TagImage := t, ImageDelete := d\<rparr>) r = authConfig env r"
  by (simp_all add: parsePlatform_def authConfig_def Let_def split: sum.splits option.splits)

text \<open>
  Whatever the backend's retag and delete return, a run of the pull path that returns
  has its returned error, its sink and its own writes fixed by the outcome of the pull,
  and whether the run returns or panics is fixed by the parse of the intermediate
  reference: no error of TagImage or ImageDelete is returned or written.
\<close>

lemma retag_and_delete_errors_not_surfaced:
  assumes "parseFormErr r = None" and "parsePlatform env r = Inr platform"
    and "Get (reqForm r) ''fromImage'' = img" and "img \<noteq> []"
    and "Get (reqForm r) ''tag'' = tag"
    and "getRegistryUrl (clientGet env) (img @ '':'' @ tag) = Some registryUrl"
    and "convertImageTag registryUrl img = Some newImage"
    and "PullImage env newImage tag platform (metaHeaders r) (authConfig env r)
           (SetHeader env ''Content-Type'' ''application/json'' w) b = (err, out1, b1)"
  shows "case ParseNormalizedNamed env (newImage @ '':'' @ tag) of
           Inl parseErr \<Rightarrow>
             (\<exists>b2 log.
                postImagesCreate (env\<lparr>TagImage := tagImage, ImageDelete := imageDelete\<rparr>) r w b
                  = Panics b2 (Close env out1) log \<and>
                (\<forall>s. Call_Write s \<notin> set log))
         | Inr named \<Rightarrow>
             (\<exists>st.
                postImagesCreate (env\<lparr>TagImage := tagImage, ImageDelete := imageDelete\<rparr>) r w b
                  = Returns st \<and>
                returned st =
                  (case err of
                     None \<Rightarrow> None
                   | Some e \<Rightarrow> if Flushed env out1 then None else Some e) \<and>
                outputSink st =
                  Close env
                    (case err of
                       None \<Rightarrow> out1
                     | Some e \<Rightarrow>
                         if Flushed env out1 then Write env (FormatError env e) out1
                         else out1) \<and>
                (\<forall>s. Call_Write s \<in> set (calls st) \<longleftrightarrow>
                       (\<exists>e. err = Some e \<and> Flushed env out1 \<and> s = FormatError env e)))"
proof -
  let ?env = "env\<lparr>TagImage := tagImage, ImageDelete := imageDelete\<rparr>"
  obtain ret terr b2 where t: "tagImage (newImage @ '':'' @ tag) img tag b1 = ((ret, terr), b2)"
    by (metis prod.exhaust)
  obtain derr b3 where d: "imageDelete (newImage @ '':'' @ tag) False True b2 = (derr, b3)"
    by (metis prod.exhaust)
  have h: "parseFormErr r = None" "parsePlatform ?env r = Inr platform"
    "Get (reqForm r) ''fromImage'' = img" "img \<noteq> []" "Get (reqForm r) ''tag'' = tag"
    "getRegistryUrl (clientGet ?env) (img @ '':'' @ tag) = Some registryUrl"
    "convertImageTag registryUrl img = Some newImage"
    "PullImage ?env newImage tag platform (metaHeaders r) (authConfig ?env r)
       (SetHeader ?env ''Content-Type'' ''application/json'' w) b = (err, out1, b1)"
    "TagImage ?env (newImage @ '':'' @ tag) img tag b1 = ((ret, terr), b2)"
    "ImageDelete ?env (newImage @ '':'' @ tag) False True b2 = (derr, b3)"
    using assms t d by (simp_all add: env_without_retag)
  show ?thesis
  proof (cases "ParseNormalizedNamed env (newImage @ '':'' @ tag)")
    case (Inl parseErr)
    then have p: "ParseNormalizedNamed ?env (newImage @ '':'' @ tag) = Inl parseErr"
      by simp
    show ?thesis
      unfolding pull_panics[OF h(1-9) p]
      using Inl by (cases terr) auto
  next
    case (Inr named)
    then have p: "ParseNormalizedNamed ?env (newImage @ '':'' @ tag) = Inr named"
      by simp
    show ?thesis
      unfolding pull_returns[OF h p]
      using Inr by (cases err; cases terr; cases derr) (auto simp: surfaceError_def)
  qed
qed

text \<open>
  C3. The claim fails on the code where the intermediate reference does not parse, by
  the same defect as for C2: the parse belongs to the cleanup step, its error is
  dropped, and FamiliarString panics on the nil reference. For \<open>fromImage = busybox\<close>
  with an empty tag the pull succeeds and the retag fails, and the handler panics
  instead of returning nil: the outcome the client sees is not the one of the pull.
\<close>

theorem successful_pull_not_reported_when_reference_does_not_parse:
  "PullImage scenarioEnv ''docker.io/library/busybox'' [] None [(''X-Meta-Source'', [''ci''])]
     emptyAuthConfig [] []
     = (None, [''Pulling from docker.io/library/busybox''],
        [''docker.io/library/busybox:latest'']) \<and>
   postImagesCreate scenarioEnv (pullRequest ''busybox'' []) [] [] =
     Panics [''docker.io/library/busybox:latest''] [''Pulling from docker.io/library/busybox'']
       [Call_getRegistryUrl ''busybox:'',
        Call_convertImageTag ''docker.io'' ''busybox'',
        Call_PullImage ''docker.io/library/busybox'' [] None [(''X-Meta-Source'', [''ci''])]
          emptyAuthConfig,
        Call_TagImage ''docker.io/library/busybox:'' ''busybox'' [],
        Log_Error ''No such image'',
        Call_ParseNormalizedNamed ''docker.io/library/busybox:'',
        Call_FamiliarString None,
        Call_Close]"
proof -
  have a1: "''busybox'' \<noteq> []"
    by simp
  have a2: "getRegistryUrl (clientGet scenarioEnv) (''busybox'' @ '':'' @ []) = Some ''docker.io''"
    by (simp add: scenario_resolver_unreachable)
  have a3: "PullImage scenarioEnv ''docker.io/library/busybox'' [] None
        (metaHeaders (pullRequest ''busybox'' []))
        (authConfig scenarioEnv (pullRequest ''busybox'' []))
        (SetHeader scenarioEnv ''Content-Type'' ''application/json'' []) []
      = (None, [''Pulling from docker.io/library/busybox''],
         [''docker.io/library/busybox:latest''])"
    by (simp add: scenario_ops)
  have a4: "TagImage scenarioEnv (''docker.io/library/busybox'' @ '':'' @ []) ''busybox'' []
        [''docker.io/library/busybox:latest'']
      = (([], Some ''No such image''), [''docker.io/library/busybox:latest''])"
    by (simp add: scenario_ops)
  have a5: "ParseNormalizedNamed scenarioEnv (''docker.io/library/busybox'' @ '':'' @ [])
      = Inl ''invalid reference format''"
    by (simp add: scenario_ops)
  show ?thesis
    unfolding pull_panics[OF scenario_request(1) scenario_request(2) scenario_request(3) a1
        scenario_request(4) a2 scenario_rewrites(2) a3 a4 a5]
    by (simp add: scenario_ops scenario_request)
qed

text \<open>
  C4. In the pull path ImageDelete is called, once, on \<open>newImage:tag\<close> with force false
  and prune true exactly when the string returned by TagImage differs from the familiar
  string of the parsed intermediate reference; no other delete is issued. When the
  reference does not parse there is no familiar string and no delete. When the two
  strings are equal the backend is left as the retag left it.
\<close>

theorem delete_iff_retag_differs:
  assumes "parseFormErr r = None" and "parsePlatform env r = Inr platform"
    and "Get (reqForm r) ''fromImage'' = img" and "img \<noteq> []"
    and "Get (reqForm r) ''tag'' = tag"
    and "getRegistryUrl (clientGet env) (img @ '':'' @ tag) = Some registryUrl"
    and "convertImageTag registryUrl img = Some newImage"
    and "PullImage env newImage tag platform (metaHeaders r) (authConfig env r)
           (SetHeader env ''Content-Type'' ''application/json'' w) b = (err, out1, b1)"
    and "TagImage env (newImage @ '':'' @ tag) img tag b1 = ((newRetagReturn, retagError), b2)"
    and "srcTotalImageRef = (case ParseNormalizedNamed env (newImage @ '':'' @ tag) of
                  Inl _ \<Rightarrow> None | Inr named \<Rightarrow> Some named)"
  shows "(\<forall>ref force prune.
            Call_ImageDelete ref force prune \<in> set (callsOf (postImagesCreate env r w b)) \<longleftrightarrow>
              ref = newImage @ '':'' @ tag \<and> \<not> force \<and> prune \<and>
              (\<exists>familiar. FamiliarString env srcTotalImageRef = Some familiar \<and>
                 newRetagReturn \<noteq> familiar)) \<and>
         count_list (callsOf (postImagesCreate env r w b))
             (Call_ImageDelete (newImage @ '':'' @ tag) False True) =
           (if \<exists>familiar. FamiliarString env srcTotalImageRef = Some familiar \<and>
                 newRetagReturn \<noteq> familiar
            then 1 else 0) \<and>
         (\<forall>familiar. FamiliarString env srcTotalImageRef = Some familiar \<longrightarrow>
            (\<exists>st. postImagesCreate env r w b = Returns st \<and>
               backendState st =
                 (if newRetagReturn \<noteq> familiar
                  then snd (ImageDelete env (newImage @ '':'' @ tag) False True b2)
                  else b2)))"
proof -
  obtain derr b3 where d: "ImageDelete env (newImage @ '':'' @ tag) False True b2 = (derr, b3)"
    by (metis prod.exhaust)
  have s: "snd (ImageDelete env (newImage @ '':'' @ tag) False True b2) = b3"
    using d by simp
  show ?thesis
  proof (cases "ParseNormalizedNamed env (newImage @ '':'' @ tag)")
    case (Inl parseErr)
    have ref: "srcTotalImageRef = None"
      using assms(10) Inl by simp
    show ?thesis
      unfolding pull_panics[OF assms(1-9) Inl] ref
      by (cases retagError) (auto simp: callsOf_def FamiliarString_def)
  next
    case (Inr named)
    have ref: "srcTotalImageRef = Some named"
      using assms(10) Inr by simp
    show ?thesis
      unfolding pull_returns[OF assms(1-9) d Inr] ref
      using s
      by (cases err; cases retagError; cases derr)
        (auto simp: surfaceError_def callsOf_def FamiliarString_def)
  qed
qed

theorem delete_iff_retag_differs_witness:
  "Call_ImageDelete ''myreg.io/library/nginx:latest'' False True
     \<in> set (callsOf (postImagesCreate scenarioEnv (pullRequest ''nginx'' ''latest'') [] [])) \<and>
   Call_ImageDelete ''docker.io/library/busybox:latest'' False True
     \<notin> set (callsOf (postImagesCreate scenarioEnv (pullRequest ''busybox'' ''latest'') [] []))"
proof (rule conjI)
  have a1: "''nginx'' \<noteq> []"
    by simp
  have a2: "getRegistryUrl (clientGet scenarioEnv) (''nginx'' @ '':'' @ ''latest'')
      = Some ''myreg.io''"
    using scenario_resolver_known by simp
  have a3: "PullImage scenarioEnv ''myreg.io/library/nginx'' ''latest'' None
        (metaHeaders (pullRequest ''nginx'' ''latest''))
        (authConfig scenarioEnv (pullRequest ''nginx'' ''latest''))
        (SetHeader scenarioEnv ''Content-Type'' ''application/json'' []) []
      = (None, [''Pulling from myreg.io/library/nginx''], [''myreg.io/library/nginx:latest''])"
    by (simp add: scenario_ops)
  have a4: "TagImage scenarioEnv (''myreg.io/library/nginx'' @ '':'' @ ''latest'') ''nginx''
        ''latest'' [''myreg.io/library/nginx:latest'']
      = ((''nginx:latest'', None), [''myreg.io/library/nginx:latest'', ''nginx:latest''])"
    by (simp add: scenario_ops)
  have a5: "Some ''myreg.io/library/nginx:latest'' =
      (case ParseNormalizedNamed scenarioEnv (''myreg.io/library/nginx'' @ '':'' @ ''latest'') of
         Inl _ \<Rightarrow> None | Inr named \<Rightarrow> Some named)"
    by (simp add: scenario_ops)
  show "Call_ImageDelete ''myreg.io/library/nginx:latest'' False True
     \<in> set (callsOf (postImagesCreate scenarioEnv (pullRequest ''nginx'' ''latest'') [] []))"
    using delete_iff_retag_differs[OF scenario_request(1) scenario_request(2)
        scenario_request(3) a1 scenario_request(4) a2 scenario_rewrites(4) a3 a4 a5]
    by (simp add: FamiliarString_def scenario_ops)
next
  have b1: "''busybox'' \<noteq> []"
    by simp
  have b2: "getRegistryUrl (clientGet scenarioEnv) (''busybox'' @ '':'' @ ''latest'')
      = Some ''docker.io''"
    by (simp add: scenario_resolver_unreachable)
  have b3: "PullImage scenarioEnv ''docker.io/library/busybox'' ''latest'' None
        (metaHeaders (pullRequest ''busybox'' ''latest''))
        (authConfig scenarioEnv (pullRequest ''busybox'' ''latest''))
        (SetHeader scenarioEnv ''Content-Type'' ''application/json'' []) []
      = (None, [''Pulling from docker.io/library/busybox''],
         [''docker.io/library/busybox:latest''])"
    by (simp add: scenario_ops)
  have b4: "TagImage scenarioEnv (''docker.io/library/busybox'' @ '':'' @ ''latest'') ''busybox''
        ''latest'' [''docker.io/library/busybox:latest'']
      = ((''busybox:latest'', None), [''docker.io/library/busybox:latest'', ''busybox:latest''])"
    by (simp add: scenario_ops)
  have b5: "Some ''docker.io/library/busybox:latest'' =
      (case ParseNormalizedNamed scenarioEnv (''docker.io/library/busybox'' @ '':'' @ ''latest'') of
         Inl _ \<Rightarrow> None | Inr named \<Rightarrow> Some named)"
    by (simp add: scenario_ops)
  show "Call_ImageDelete ''docker.io/library/busybox:latest'' False True
     \<notin> set (callsOf (postImagesCreate scenarioEnv (pullRequest ''busybox'' ''latest'') [] []))"
    using delete_iff_retag_differs[OF scenario_request(1) scenario_request(2)
        scenario_request(3) b1 scenario_request(4) b2 scenario_rewrites(2) b3 b4 b5]
    by (simp add: FamiliarString_def scenario_ops)
qed

text \<open>
  C9. Line 164 does drop the error of the parse and line 165 does hand the nil
  reference to FamiliarString, but the conversion does not give a string there: it
  panics, so the comparison is never evaluated and the delete is never decided. For
  \<open>fromImage = nginx\<close> with an empty tag the pull and the retag run, the parse of
  \<open>docker.io/library/nginx:\<close> fails, and the handler panics; the error of the pull,
  which had been flushed, is never written.
\<close>

theorem failed_parse_panics_in_FamiliarString:
  "ParseNormalizedNamed scenarioEnv ''docker.io/library/nginx:'' = Inl ''invalid reference format'' \<and>
   FamiliarString scenarioEnv None = None \<and>
   postImagesCreate scenarioEnv (pullRequest ''nginx'' []) [] [] =
     Panics [] [''Pulling from docker.io/library/nginx'']
       [Call_getRegistryUrl ''nginx:'',
        Call_convertImageTag ''docker.io'' ''nginx'',
        Call_PullImage ''docker.io/library/nginx'' [] None [(''X-Meta-Source'', [''ci''])]
          emptyAuthConfig,
        Call_TagImage ''docker.io/library/nginx:'' ''nginx'' [],
        Log_Error ''No such image'',
        Call_ParseNormalizedNamed ''docker.io/library/nginx:'',
        Call_FamiliarString None,
        Call_Close]"
proof -
  have a1: "''nginx'' \<noteq> []"
    by simp
  have a2: "getRegistryUrl (clientGet scenarioEnv) (''nginx'' @ '':'' @ []) = Some ''docker.io''"
    by (simp add: scenario_resolver_unreachable)
  have a3: "PullImage scenarioEnv ''docker.io/library/nginx'' [] None
        (metaHeaders (pullRequest ''nginx'' []))
        (authConfig scenarioEnv (pullRequest ''nginx'' []))
        (SetHeader scenarioEnv ''Content-Type'' ''application/json'' []) []
      = (Some ''connection reset by peer'', [''Pulling from docker.io/library/nginx''], [])"
    by (simp add: scenario_ops)
  have a4: "TagImage scenarioEnv (''docker.io/library/nginx'' @ '':'' @ []) ''nginx'' [] []
      = (([], Some ''No such image''), [])"
    by (simp add: scenario_ops)
  have a5: "ParseNormalizedNamed scenarioEnv (''docker.io/library/nginx'' @ '':'' @ [])
      = Inl ''invalid reference format''"
    by (simp add: scenario_ops)
  show ?thesis
    unfolding pull_panics[OF scenario_request(1) scenario_request(2) scenario_request(3) a1
        scenario_request(4) a2 scenario_rewrites(1) a3 a4 a5]
    by (simp add: scenario_ops scenario_request FamiliarString_def)
qed

section \<open>postImagesCreate: the import path\<close>

lemma no_platform_field:
  "parsePlatform env r = Inr platform \<Longrightarrow> Get (reqForm r) ''platform'' = [] \<Longrightarrow> platform = None"
  by (auto simp: parsePlatform_def Let_def split: if_splits)

text \<open>
  C8. A request with an empty \<open>fromImage\<close> field takes the import path: the only
  backend call is ImportImage with the \<open>fromSrc\<close> field, the repo, the OS of the
  platform (the empty string without a platform), the tag, the message, the request body
  and the \<open>changes\<close> values; neither getRegistryUrl nor convertImageTag is called, and
  an import error is returned or written by the same rule as a pull error.
\<close>

theorem empty_fromImage_takes_import_path:
  assumes "parseFormErr r = None" and "parsePlatform env r = Inr platform"
    and "Get (reqForm r) ''fromImage'' = []"
    and "ImportImage env (Get (reqForm r) ''fromSrc'') (Get (reqForm r) ''repo'')
           (case platform of None \<Rightarrow> [] | Some p \<Rightarrow> OS p)
           (Get (reqForm r) ''tag'') (Get (reqForm r) ''message'') (reqBody r)
           (SetHeader env ''Content-Type'' ''application/json'' w)
           (values_at (reqForm r) ''changes'') b = (err, out1, b1)"
  shows "postImagesCreate env r w b = Returns
     \<lparr>returned =
        (case err of
           None \<Rightarrow> None
         | Some e \<Rightarrow> if Flushed env out1 then None else Some e),
      backendState = b1,
      outputSink =
        Close env
          (case err of
             None \<Rightarrow> out1
           | Some e \<Rightarrow>
               if Flushed env out1 then Write env (FormatError env e) out1 else out1),
      calls =
        [Call_ImportImage (Get (reqForm r) ''fromSrc'') (Get (reqForm r) ''repo'')
           (case platform of None \<Rightarrow> [] | Some p \<Rightarrow> OS p)
           (Get (reqForm r) ''tag'') (Get (reqForm r) ''message'') (reqBody r)
           (values_at (reqForm r) ''changes'')]
        @ (case err of
             None \<Rightarrow> []
           | Some e \<Rightarrow> if Flushed env out1 then [Call_Write (FormatError env e)] else [])
        @ [Call_Close]\<rparr> \<and>
     (Get (reqForm r) ''platform'' = [] \<longrightarrow> platform = None)"
  using assms no_platform_field[of env r platform]
  by (cases err) (simp_all add: postImagesCreate_def Let_def surfaceError_def)

lemma scenario_import_request:
  "parseFormErr (importRequest src) = None"
  "parsePlatform scenarioEnv (importRequest src) =
     Inr (Some \<lparr>OS = ''linux'', Architecture = ''amd64'', Variant = []\<rparr>)"
  "Get (reqForm (importRequest src)) ''fromImage'' = []"
  "Get (reqForm (importRequest src)) ''fromSrc'' = src"
  "Get (reqForm (importRequest src)) ''repo'' = ''myrepo''"
  "Get (reqForm (importRequest src)) ''tag'' = ''v1''"
  "Get (reqForm (importRequest src)) ''message'' = ''initial''"
  "values_at (reqForm (importRequest src)) ''changes'' = [''ENV A=1'', ''CMD sh'']"
  "reqBody (importRequest src) = ''tarball''"
  by (simp_all add: importRequest_def parsePlatform_def scenarioEnv_def Get_def values_at_def)

theorem empty_fromImage_takes_import_path_witness:
  "postImagesCreate scenarioEnv (importRequest ''-'') [] [] = Returns
     \<lparr>returned = None, backendState = [''myrepo:v1''], outputSink = [''Imported''],
      calls = [Call_ImportImage ''-'' ''myrepo'' ''linux'' ''v1'' ''initial'' ''tarball''
                 [''ENV A=1'', ''CMD sh''],
               Call_Close]\<rparr> \<and>
   postImagesCreate scenarioEnv (importRequest []) [] [] = Returns
     \<lparr>returned = Some ''empty source'', backendState = [], outputSink = [],
      calls = [Call_ImportImage [] ''myrepo'' ''linux'' ''v1'' ''initial'' ''tarball''
                 [''ENV A=1'', ''CMD sh''],
               Call_Close]\<rparr>"
  using empty_fromImage_takes_import_path[where env = scenarioEnv
      and r = "importRequest ''-''" and w = "[]" and b = "[]"
      and platform = "Some \<lparr>OS = ''linux'', Architecture = ''amd64'', Variant = []\<rparr>"
      and err = None and ?out1.0 = "[''Imported'']" and ?b1.0 = "[''myrepo:v1'']"]
    empty_fromImage_takes_import_path[where env = scenarioEnv
      and r = "importRequest []" and w = "[]" and b = "[]"
      and platform = "Some \<lparr>OS = ''linux'', Architecture = ''amd64'', Variant = []\<rparr>"
      and err = "Some ''empty source''" and ?out1.0 = "[]" and ?b1.0 = "[]"]
  by (simp add: scenario_import_request scenario_ops)

section \<open>postImagesCreate: the strings given to the resolver and to the backend\<close>

text \<open>
  C10, amended. For every pull request the resolver is asked for \<open>fromImage:tag\<close>, and
  the reference given to the retag, to the parse and to the delete is \<open>newImage:tag\<close>,
  the colon being added whatever the tag is, so that both strings end in a colon when
  the tag is empty. The pull itself receives \<open>newImage\<close> and the tag as two arguments.
  This holds of the calls of every run, whether it returns or panics.
\<close>

theorem colon_concatenated_unconditionally:
  assumes "parseFormErr r = None" and "parsePlatform env r = Inr platform"
    and "Get (reqForm r) ''fromImage'' = img" and "img \<noteq> []"
    and "Get (reqForm r) ''tag'' = tag"
    and "getRegistryUrl (clientGet env) (img @ '':'' @ tag) = Some registryUrl"
    and "convertImageTag registryUrl img = Some newImage"
  shows "(\<forall>x. Call_getRegistryUrl x \<in> set (callsOf (postImagesCreate env r w b)) \<longleftrightarrow>
            x = img @ '':'' @ tag) \<and>
         (\<forall>n t p h a. Call_PullImage n t p h a \<in> set (callsOf (postImagesCreate env r w b)) \<longleftrightarrow>
            n = newImage \<and> t = tag \<and> p = platform \<and> h = metaHeaders r \<and>
            a = authConfig env r) \<and>
         (\<forall>s n t. Call_TagImage s n t \<in> set (callsOf (postImagesCreate env r w b)) \<longleftrightarrow>
            s = newImage @ '':'' @ tag \<and> n = img \<and> t = tag) \<and>
         (\<forall>s. Call_ParseNormalizedNamed s \<in> set (callsOf (postImagesCreate env r w b)) \<longleftrightarrow>
            s = newImage @ '':'' @ tag) \<and>
         (\<forall>s force prune.
            Call_ImageDelete s force prune \<in> set (callsOf (postImagesCreate env r w b)) \<longrightarrow>
            s = newImage @ '':'' @ tag) \<and>
         (tag = [] \<longrightarrow>
            last (img @ '':'' @ tag) = CHR '':'' \<and>
            last (newImage @ '':'' @ tag) = CHR '':'')"
proof -
  obtain err out1 b1 where p:
    "PullImage env newImage tag platform (metaHeaders r) (authConfig env r)
       (SetHeader env ''Content-Type'' ''application/json'' w) b = (err, out1, b1)"
    by (metis prod.exhaust)
  obtain ret terr b2 where t:
    "TagImage env (newImage @ '':'' @ tag) img tag b1 = ((ret, terr), b2)"
    by (metis prod.exhaust)
  obtain derr b3 where d: "ImageDelete env (newImage @ '':'' @ tag) False True b2 = (derr, b3)"
    by (metis prod.exhaust)
  show ?thesis
  proof (cases "ParseNormalizedNamed env (newImage @ '':'' @ tag)")
    case (Inl parseErr)
    show ?thesis
      unfolding pull_panics[OF assms p t Inl]
      by (cases terr) (auto simp: callsOf_def)
  next
    case (Inr named)
    show ?thesis
      unfolding pull_returns[OF assms p t d Inr]
      by (cases err; cases terr; cases derr) (auto simp: surfaceError_def callsOf_def)
  qed
qed

text \<open>
  C10, as stated, fails for the pull: the backend's PullImage is called with the name
  \<open>newImage\<close> and the tag as separate arguments, not with \<open>newImage:tag\<close>. Here the
  request is for \<open>busybox\<close> with the tag \<open>latest\<close>; the intermediate reference parses
  and the handler returns.
\<close>

theorem pull_receives_name_and_tag_apart_counterexample:
  "postImagesCreate scenarioEnv (pullRequest ''busybox'' ''latest'') [] [] = Returns
     \<lparr>returned = None,
      backendState = [''docker.io/library/busybox:latest'', ''busybox:latest''],
      outputSink = [''Pulling from docker.io/library/busybox''],
      calls =
        [Call_getRegistryUrl ''busybox:latest'',
         Call_convertImageTag ''docker.io'' ''busybox'',
         Call_PullImage ''docker.io/library/busybox'' ''latest'' None
           [(''X-Meta-Source'', [''ci''])] emptyAuthConfig,
         Call_TagImage ''docker.io/library/busybox:latest'' ''busybox'' ''latest'',
         Call_ParseNormalizedNamed ''docker.io/library/busybox:latest'',
         Call_FamiliarString (Some ''docker.io/library/busybox:latest''),
         Call_Close]\<rparr> \<and>
   ''docker.io/library/busybox'' \<noteq> ''docker.io/library/busybox'' @ '':'' @ ''latest''"
proof -
  have b1: "''busybox'' \<noteq> []"
    by simp
  have b2: "getRegistryUrl (clientGet scenarioEnv) (''busybox'' @ '':'' @ ''latest'')
      = Some ''docker.io''"
    by (simp add: scenario_resolver_unreachable)
  have b3: "PullImage scenarioEnv ''docker.io/library/busybox'' ''latest'' None
        (metaHeaders (pullRequest ''busybox'' ''latest''))
        (authConfig scenarioEnv (pullRequest ''busybox'' ''latest''))
        (SetHeader scenarioEnv ''Content-Type'' ''application/json'' []) []
      = (None, [''Pulling from docker.io/library/busybox''],
         [''docker.io/library/busybox:latest''])"
    by (simp add: scenario_ops)
  have b4: "TagImage scenarioEnv (''docker.io/library/busybox'' @ '':'' @ ''latest'') ''busybox''
        ''latest'' [''docker.io/library/busybox:latest'']
      = ((''busybox:latest'', None), [''docker.io/library/busybox:latest'', ''busybox:latest''])"
    by (simp add: scenario_ops)
  have b5: "ImageDelete scenarioEnv (''docker.io/library/busybox'' @ '':'' @ ''latest'') False True
        [''docker.io/library/busybox:latest'', ''busybox:latest'']
      = (None, [''busybox:latest''])"
    by (simp add: scenario_ops)
  have b6: "ParseNormalizedNamed scenarioEnv (''docker.io/library/busybox'' @ '':'' @ ''latest'')
      = Inr ''docker.io/library/busybox:latest''"
    by (simp add: scenario_ops)
  show ?thesis
    unfolding pull_returns[OF scenario_request(1) scenario_request(2) scenario_request(3) b1
        scenario_request(4) b2 scenario_rewrites(2) b3 b4 b5 b6]
    by (simp add: surfaceError_def scenario_ops scenario_request)
qed

theorem colon_concatenated_unconditionally_witness:
  "(\<forall>x. Call_getRegistryUrl x
          \<in> set (callsOf (postImagesCreate scenarioEnv (pullRequest ''ghost'' []) [] [])) \<longleftrightarrow>
        x = ''ghost:'') \<and>
   (\<forall>n t p h a. Call_PullImage n t p h a
          \<in> set (callsOf (postImagesCreate scenarioEnv (pullRequest ''ghost'' []) [] [])) \<longleftrightarrow>
        n = ''docker.io/library/ghost'' \<and> t = [] \<and> p = None \<and>
        h = [(''X-Meta-Source'', [''ci''])] \<and> a = emptyAuthConfig) \<and>
   (\<forall>s n t. Call_TagImage s n t
          \<in> set (callsOf (postImagesCreate scenarioEnv (pullRequest ''ghost'' []) [] [])) \<longleftrightarrow>
        s = ''docker.io/library/ghost:'' \<and> n = ''ghost'' \<and> t = []) \<and>
   (\<forall>s. Call_ParseNormalizedNamed s
          \<in> set (callsOf (postImagesCreate scenarioEnv (pullRequest ''ghost'' []) [] [])) \<longleftrightarrow>
        s = ''docker.io/library/ghost:'')"
proof -
  have b1: "''ghost'' \<noteq> []"
    by simp
  have b2: "getRegistryUrl (clientGet scenarioEnv) (''ghost'' @ '':'' @ []) = Some ''docker.io''"
    by (simp add: scenario_resolver_unreachable)
  show ?thesis
    by (insert colon_concatenated_unconditionally[OF scenario_request(1) scenario_request(2)
        scenario_request(3) b1 scenario_request(4) b2 scenario_rewrites(3), of "[]" "[]"],
       simp add: scenario_request)
qed

end
